theory Spec2Isabelle
  imports Complex_Main "HOL-Library.Sublist"
begin

section \<open>Python values and exceptions\<close>

text \<open>
  The values the program handles: the parsed JSON body of the API response and the
  dictionaries \<open>get_seo_metrics\<close> returns. A Python \<open>dict\<close> is an association list in
  insertion order, read by \<open>map_of\<close> (the first binding of a key is the dict's), so
  every association list denotes a dict.
\<close>

datatype py_value =
    PNone
  | PBool bool
  | PInt int
  | PFloat real
  | PStr string
  | PList "py_value list"
  | PDict "(string \<times> py_value) list"

type_synonym py_dict = "(string \<times> py_value) list"

text \<open>
  An exception is an instance of a subclass of \<open>Exception\<close>: its class name and the text
  \<open>str(e)\<close> gives. Signals that derive from \<open>BaseException\<close> only (KeyboardInterrupt,
  SystemExit) are not exceptions of this model.
\<close>

datatype py_exception = PyException (exc_class: string) (str_exc: string)

fun type_name :: "py_value \<Rightarrow> string" where
  "type_name PNone = ''NoneType''"
| "type_name (PBool _) = ''bool''"
| "type_name (PInt _) = ''int''"
| "type_name (PFloat _) = ''float''"
| "type_name (PStr _) = ''str''"
| "type_name (PList _) = ''list''"
| "type_name (PDict _) = ''dict''"

text \<open>\<open>d.get(key, default)\<close> on a dict.\<close>

definition dict_get :: "py_dict \<Rightarrow> string \<Rightarrow> py_value \<Rightarrow> py_value" where
  "dict_get d k dflt = (case map_of d k of None \<Rightarrow> dflt | Some v \<Rightarrow> v)"

text \<open>
  \<open>v.get(key, default)\<close> on any value: only a dict has the method; every other value
  raises AttributeError.
\<close>

fun py_get :: "py_value \<Rightarrow> string \<Rightarrow> py_value \<Rightarrow> py_exception + py_value" where
  "py_get (PDict d) k dflt = Inr (dict_get d k dflt)"
| "py_get v k dflt =
     Inl (PyException ''AttributeError''
       (CHR 0x27 # type_name v @ CHR 0x27 # '' object has no attribute '' @
        CHR 0x27 # ''get'' @ [CHR 0x27]))"

section \<open>Strings\<close>

text \<open>
  \<open>s.replace(old, new)\<close>: every non-overlapping occurrence of \<open>old\<close>, from the left, is
  replaced by \<open>new\<close>; with an empty \<open>old\<close>, \<open>new\<close> is put before every character and at
  the end. A string is a list of bytes; the underscore and the space are ASCII, and an
  ASCII byte never occurs inside a multi-byte UTF-8 sequence, so replacing bytes and
  replacing code points agree for the call the program makes.
\<close>

function replace_from :: "string \<Rightarrow> string \<Rightarrow> string \<Rightarrow> string" where
  "replace_from old new [] = []"
| "replace_from old new (c # cs) =
     (if old \<noteq> [] \<and> prefix old (c # cs)
      then new @ replace_from old new (drop (length old) (c # cs))
      else c # replace_from old new cs)"
  by pat_completeness auto
termination
  by (relation "measure (\<lambda>(old, new, s). length s)") auto

definition str_replace :: "string \<Rightarrow> string \<Rightarrow> string \<Rightarrow> string" where
  "str_replace old new s =
     (if old = [] then new @ concat (map (\<lambda>c. c # new) s) else replace_from old new s)"

section \<open>The lexical database\<close>

text \<open>
  WordNet as the program reads it: \<open>wordnet.synsets(word)\<close> gives a list of synsets (or
  raises, for instance LookupError when the corpus is not installed), \<open>syn.lemmas()\<close>
  the lemmas of a synset, \<open>lemma.name()\<close> a lemma's name.
\<close>

datatype wn_lemma = Lemma (name: string)

datatype wn_synset = Synset (synset_name: string) (lemmas_of: "wn_lemma list")

type_synonym wordnet = "string \<Rightarrow> py_exception + wn_synset list"

text \<open>
  \<open>list(set(xs))\<close>: the elements of \<open>xs\<close>, each once, in the iteration order of the
  hash set, which depends on the hashes of the strings (randomised per process) and is
  not specified. It is a parameter of the model; \<open>py_set_iteration\<close> says what Python
  guarantees of it.
\<close>

definition py_set_iteration :: "(string list \<Rightarrow> string list) \<Rightarrow> bool" where
  "py_set_iteration list_set \<longleftrightarrow> (\<forall>xs. distinct (list_set xs) \<and> set (list_set xs) = set xs)"

section \<open>generate\_keywords\<close>

text \<open>The inner loop, over the lemmas of one synset.\<close>

fun for_lemmas :: "string list \<Rightarrow> wn_lemma list \<Rightarrow> string list" where
  "for_lemmas synonyms [] = synonyms"
| "for_lemmas synonyms (l # ls) =
     for_lemmas (synonyms @ [str_replace ''_'' '' '' (name l)]) ls"

text \<open>The outer loop, over the synsets.\<close>

fun for_synsets :: "string list \<Rightarrow> wn_synset list \<Rightarrow> string list" where
  "for_synsets synonyms [] = synonyms"
| "for_synsets synonyms (syn # syns) =
     for_synsets (for_lemmas synonyms (lemmas_of syn)) syns"

text \<open>
  The function has no \<open>try\<close>: an exception of the lookup reaches the caller. It checks
  nothing about the seed.
\<close>

definition generate_keywords ::
  "(string list \<Rightarrow> string list) \<Rightarrow> wordnet \<Rightarrow> string \<Rightarrow> py_exception + string list" where
  "generate_keywords list_set wordnet_synsets seed_keyword =
     (case wordnet_synsets seed_keyword of
        Inl e \<Rightarrow> Inl e
      | Inr syns \<Rightarrow> Inr (list_set (for_synsets [] syns)))"

text \<open>The lemma names of a list of synsets, in the order the loops visit them.\<close>

definition lemma_names :: "wn_synset list \<Rightarrow> string list" where
  "lemma_names syns = concat (map (\<lambda>syn. map name (lemmas_of syn)) syns)"

text \<open>
  The database of the scenario: the seed \<open>bank\<close> has the two senses \<open>bank_(finance)\<close>
  and \<open>bank_(river)\<close>; no other word has a sense.
\<close>

definition bank_wordnet :: wordnet where
  "bank_wordnet word =
     (if word = ''bank''
      then Inr [Synset ''bank_(finance)'' [Lemma ''bank'', Lemma ''depository''],
                Synset ''bank_(river)'' [Lemma ''bank'', Lemma ''riverbank'']]
      else Inr [])"

section \<open>Decimal numerals\<close>

text \<open>\<open>str(n)\<close> for an integer, as the f-strings of the program and of requests print it.\<close>

definition digit_char :: "nat \<Rightarrow> char" where
  "digit_char d = ''0123456789'' ! d"

function str_nat :: "nat \<Rightarrow> string" where
  "str_nat n = (if n < 10 then [digit_char n] else str_nat (n div 10) @ [digit_char (n mod 10)])"
  by pat_completeness auto
termination
  by (relation "measure id") auto

declare str_nat.simps [simp del]

definition str_int :: "int \<Rightarrow> string" where
  "str_int i = (if i < 0 then CHR ''-'' # str_nat (nat (- i)) else str_nat (nat i))"

section \<open>The metrics API\<close>

text \<open>
  What \<open>requests.get\<close> returns when it does not raise: the status line, the final URL
  and what \<open>response.json()\<close> gives (the parsed body, or the JSONDecodeError it raises).
\<close>

record response =
  status_code :: int
  reason :: string
  url :: string
  json :: "py_exception + py_value"

text \<open>
  \<open>requests.get(url, params=..., timeout=...)\<close> acts on the world \<open>'w\<close> (the network):
  it raises (connection error, timeout) or returns a response.
\<close>

type_synonym 'w requests_get =
  "string \<Rightarrow> py_dict \<Rightarrow> int \<Rightarrow> 'w \<Rightarrow> (py_exception + response) \<times> 'w"

text \<open>
  \<open>Response.raise_for_status()\<close> of the requests library: HTTPError for a status in
  400..599, with the message the library builds; nothing for any other status.
\<close>

definition raise_for_status :: "response \<Rightarrow> py_exception + unit" where
  "raise_for_status r =
     (let http_error_msg =
        (if 400 \<le> status_code r \<and> status_code r < 500
         then str_int (status_code r) @ '' Client Error: '' @ reason r @ '' for url: '' @ url r
         else if 500 \<le> status_code r \<and> status_code r < 600
         then str_int (status_code r) @ '' Server Error: '' @ reason r @ '' for url: '' @ url r
         else [])
      in if http_error_msg \<noteq> [] then Inl (PyException ''HTTPError'' http_error_msg)
         else Inr ())"

definition SERPAPI_URL :: string where
  "SERPAPI_URL = ''https://serpapi.com/search.json''"

section \<open>get\_seo\_metrics\<close>

text \<open>The \<open>try\<close> block: the first exception ends it.\<close>

definition try_block ::
  "'w requests_get \<Rightarrow> string \<Rightarrow> string \<Rightarrow> 'w \<Rightarrow> (py_exception + py_dict) \<times> 'w" where
  "try_block requests_get keyword api_key w =
     (let params = [(''q'', PStr keyword), (''api_key'', PStr api_key), (''num'', PInt 5)]
      in case requests_get SERPAPI_URL params 10 w of
        (Inl e, w') \<Rightarrow> (Inl e, w')
      | (Inr response, w') \<Rightarrow>
          (case raise_for_status response of
             Inl e \<Rightarrow> (Inl e, w')
           | Inr _ \<Rightarrow>
          (case json response of
             Inl e \<Rightarrow> (Inl e, w')
           | Inr data \<Rightarrow>
          (case py_get data ''search_metadata'' (PDict []) of
             Inl e \<Rightarrow> (Inl e, w')
           | Inr search_metadata \<Rightarrow>
          (case py_get search_metadata ''total_results'' (PStr ''N/A'') of
             Inl e \<Rightarrow> (Inl e, w')
           | Inr search_volume \<Rightarrow>
          (case py_get data ''keyword_difficulty'' (PStr ''N/A'') of
             Inl e \<Rightarrow> (Inl e, w')
           | Inr keyword_difficulty \<Rightarrow>
               (Inr [(''keyword'', PStr keyword),
                     (''search_volume'', search_volume),
                     (''keyword_difficulty'', keyword_difficulty),
                     (''success'', PBool True)], w')))))))"

text \<open>The function: the \<open>try\<close> block, and the \<open>except Exception as e\<close> handler.\<close>

definition get_seo_metrics ::
  "'w requests_get \<Rightarrow> string \<Rightarrow> string \<Rightarrow> 'w \<Rightarrow> py_dict \<times> 'w" where
  "get_seo_metrics requests_get keyword api_key w =
     (case try_block requests_get keyword api_key w of
        (Inr metrics, w') \<Rightarrow> (metrics, w')
      | (Inl e, w') \<Rightarrow>
          ([(''keyword'', PStr keyword),
            (''error'', PStr (str_exc e)),
            (''success'', PBool False)], w'))"

text \<open>The keys of a returned dict, and the value under a key.\<close>

definition keys :: "py_dict \<Rightarrow> string set" where
  "keys d = fst ` set d"

definition item :: "py_dict \<Rightarrow> string \<Rightarrow> py_value option" where
  "item d k = map_of d k"

section \<open>The cache decorator\<close>

text \<open>
  \<open>@st.cache_data(ttl=...)\<close> of Streamlit as the program uses it: a store from the
  call's arguments to the returned value and the clock reading at which it was stored.
  A call reads the clock once; an entry is served while the clock is before its
  insertion time plus the ttl (for ever when there is no ttl), and the decorated
  function is not run then. Otherwise the function runs, and a value it returns is
  stored under the arguments; an exception it raises is not stored.
\<close>

type_synonym ('k, 'v) cache = "'k \<Rightarrow> ('v \<times> real) option"

definition cache_read :: "real option \<Rightarrow> real \<Rightarrow> ('k, 'v) cache \<Rightarrow> 'k \<Rightarrow> 'v option" where
  "cache_read ttl now cache key =
     (case cache key of
        None \<Rightarrow> None
      | Some (v, stored) \<Rightarrow>
          (case ttl of
             None \<Rightarrow> Some v
           | Some seconds \<Rightarrow> if now < stored + seconds then Some v else None))"

definition cache_data ::
  "real option \<Rightarrow> ('k \<Rightarrow> 'w \<Rightarrow> (py_exception + 'v) \<times> 'w) \<Rightarrow>
   real \<Rightarrow> 'k \<Rightarrow> ('k, 'v) cache \<times> 'w \<Rightarrow> (py_exception + 'v) \<times> ('k, 'v) cache \<times> 'w" where
  "cache_data ttl f now key st =
     (case st of (cache, w) \<Rightarrow>
        (case cache_read ttl now cache key of
           Some v \<Rightarrow> (Inr v, cache, w)
         | None \<Rightarrow>
             (case f key w of
                (Inl e, w') \<Rightarrow> (Inl e, cache, w')
              | (Inr v, w') \<Rightarrow> (Inr v, cache(key \<mapsto> (v, now)), w'))))"

text \<open>\<open>generate_keywords\<close> under \<open>@st.cache_data\<close>: keyed by the seed, no ttl.\<close>

definition cached_generate_keywords ::
  "(string list \<Rightarrow> string list) \<Rightarrow> wordnet \<Rightarrow> real \<Rightarrow> string \<Rightarrow>
   (string, string list) cache \<Rightarrow> (py_exception + string list) \<times> (string, string list) cache" where
  "cached_generate_keywords list_set wordnet_synsets now seed_keyword cache =
     (case cache_data None (\<lambda>seed u. (generate_keywords list_set wordnet_synsets seed, u))
             now seed_keyword (cache, ()) of
        (r, cache', _) \<Rightarrow> (r, cache'))"

text \<open>
  \<open>get_seo_metrics\<close> under \<open>@st.cache_data(ttl=3600)\<close>: keyed by the pair of its
  arguments. The function never raises, so the call returns a dict.
\<close>

definition cached_get_seo_metrics ::
  "'w requests_get \<Rightarrow> real \<Rightarrow> string \<Rightarrow> string \<Rightarrow>
   (string \<times> string, py_dict) cache \<times> 'w \<Rightarrow>
   (py_exception + py_dict) \<times> (string \<times> string, py_dict) cache \<times> 'w" where
  "cached_get_seo_metrics requests_get now keyword api_key st =
     cache_data (Some 3600)
       (\<lambda>(keyword, api_key) w.
          case get_seo_metrics requests_get keyword api_key w of (metrics, w') \<Rightarrow> (Inr metrics, w'))
       now (keyword, api_key) st"

text \<open>
  A network whose answers may change from one request to the next: the world is the
  list of requests sent so far, and \<open>net n\<close> answers the request sent after \<open>n\<close> others.
\<close>

type_synonym request = "string \<times> py_dict \<times> int"

definition net_get ::
  "(nat \<Rightarrow> string \<Rightarrow> py_dict \<Rightarrow> int \<Rightarrow> py_exception + response) \<Rightarrow> request list requests_get" where
  "net_get net u params timeout sent =
     (net (length sent) u params timeout, sent @ [(u, params, timeout)])"

section \<open>The analysis loop of the main script\<close>

text \<open>
  \<open>xs[:k]\<close>: the first \<open>k\<close> elements, and for a negative \<open>k\<close> all but the last \<open>-k\<close>.
\<close>

definition slice_to :: "'a list \<Rightarrow> int \<Rightarrow> 'a list" where
  "slice_to xs k = (if k < 0 then take (length xs - nat (- k)) xs else take (nat k) xs)"

text \<open>
  What an iteration does, in order: the status text, the call of \<open>get_seo_metrics\<close>, the
  progress bar at \<open>(i + 1) / analysis_limit\<close> (numerator and denominator), the sleep
  (in milliseconds).
\<close>

datatype ui_event =
    StatusText string
  | Fetch string string
  | Progress int int
  | Sleep nat

record 's loop_state =
  results :: "py_dict list"
  events :: "ui_event list"
  fetch_state :: 's

text \<open>
  The body of \<open>for i, keyword in enumerate(keywords[:analysis_limit])\<close>, for any
  \<open>get_seo_metrics\<close> acting on a state \<open>'s\<close> (its cache and the network).
\<close>

fun analysis_loop ::
  "(string \<Rightarrow> string \<Rightarrow> 's \<Rightarrow> py_dict \<times> 's) \<Rightarrow> string \<Rightarrow> int \<Rightarrow> (nat \<times> string) list \<Rightarrow>
   's loop_state \<Rightarrow> 's loop_state" where
  "analysis_loop fetch api_key analysis_limit [] st = st"
| "analysis_loop fetch api_key analysis_limit ((i, keyword) # rest) st =
     (case fetch keyword api_key (fetch_state st) of
        (metrics, s') \<Rightarrow>
          analysis_loop fetch api_key analysis_limit rest
            \<lparr>results = results st @ [metrics],
             events = events st @
               [StatusText (''Analyzing: '' @ keyword @ '' ('' @ str_int (int i + 1) @ ''/'' @
                  str_int analysis_limit @ '')''),
                Fetch keyword api_key,
                Progress (int i + 1) analysis_limit,
                Sleep 200],
             fetch_state = s'\<rparr>)"

definition analysis ::
  "(string \<Rightarrow> string \<Rightarrow> 's \<Rightarrow> py_dict \<times> 's) \<Rightarrow> string \<Rightarrow> int \<Rightarrow> string list \<Rightarrow> 's \<Rightarrow>
   's loop_state" where
  "analysis fetch api_key analysis_limit keywords s =
     analysis_loop fetch api_key analysis_limit
       (enumerate 0 (slice_to keywords analysis_limit))
       \<lparr>results = [], events = [], fetch_state = s\<rparr>"

text \<open>The calls of \<open>get_seo_metrics\<close> among the events, in order.\<close>

fun fetch_calls :: "ui_event list \<Rightarrow> (string \<times> string) list" where
  "fetch_calls [] = []"
| "fetch_calls (Fetch keyword api_key # evs) = (keyword, api_key) # fetch_calls evs"
| "fetch_calls (_ # evs) = fetch_calls evs"

text \<open>
  The dicts a sequence of calls returns, one call after the other on the state the
  previous one left.
\<close>

fun fetch_each ::
  "(string \<Rightarrow> string \<Rightarrow> 's \<Rightarrow> py_dict \<times> 's) \<Rightarrow> string \<Rightarrow> string list \<Rightarrow> 's \<Rightarrow> py_dict list" where
  "fetch_each fetch api_key [] s = []"
| "fetch_each fetch api_key (keyword # rest) s =
     (case fetch keyword api_key s of
        (metrics, s') \<Rightarrow> metrics # fetch_each fetch api_key rest s')"

section \<open>Scenarios\<close>

text \<open>An endpoint that answers every request with HTTP 401.\<close>

definition unauthorized :: "'w requests_get" where
  "unauthorized u params timeout w =
     (Inr \<lparr>status_code = 401, reason = ''Unauthorized'',
           url = ''https://serpapi.com/search.json?q=xyzzy123nonexistent&api_key=badkey&num=5'',
           json = Inr (PDict [(''error'', PStr ''Invalid API key.'')])\<rparr>, w)"

text \<open>
  A network that answers the first request with HTTP 503 and every later one with a
  result count.
\<close>

definition recovering :: "nat \<Rightarrow> string \<Rightarrow> py_dict \<Rightarrow> int \<Rightarrow> py_exception + response" where
  "recovering n u params timeout =
     (if n = 0
      then Inr \<lparr>status_code = 503, reason = ''Service Unavailable'', url = u, json = Inr PNone\<rparr>
      else Inr \<lparr>status_code = 200, reason = ''OK'', url = u,
                json = Inr (PDict [(''search_metadata'', PDict [(''total_results'', PInt 1200)])])\<rparr>)"

text \<open>
  A sequence of calls of the cached \<open>get_seo_metrics\<close>, each at its clock reading, one
  after the other.
\<close>

fun run_calls ::
  "'w requests_get \<Rightarrow> (real \<times> string \<times> string) list \<Rightarrow>
   (string \<times> string, py_dict) cache \<times> 'w \<Rightarrow> (string \<times> string, py_dict) cache \<times> 'w" where
  "run_calls requests_get [] st = st"
| "run_calls requests_get ((now, keyword, api_key) # calls) st =
     run_calls requests_get calls (snd (cached_get_seo_metrics requests_get now keyword api_key st))"

section \<open>Properties of the string replacement\<close>

lemma replace_from_char:
  "replace_from [a] [b] s = map (\<lambda>c. if c = a then b else c) s"
  by (induction s) auto

lemma str_replace_char:
  "str_replace [a] [b] s = map (\<lambda>c. if c = a then b else c) s"
  by (simp add: str_replace_def replace_from_char)

lemma str_replace_removes:
  "a \<noteq> b \<Longrightarrow> a \<notin> set (str_replace [a] [b] s)"
  by (auto simp: str_replace_char)

section \<open>Properties of the loops\<close>

lemma for_lemmas_eq:
  "for_lemmas synonyms ls = synonyms @ map (\<lambda>l. str_replace ''_'' '' '' (name l)) ls"
  by (induction ls arbitrary: synonyms) auto

lemma for_synsets_eq:
  "for_synsets synonyms syns =
     synonyms @ map (str_replace ''_'' '' '') (lemma_names syns)"
  by (induction syns arbitrary: synonyms) (auto simp: for_lemmas_eq lemma_names_def)

lemma generate_keywords_set:
  assumes "py_set_iteration list_set" and "wordnet_synsets seed = Inr syns"
  shows "\<exists>ks. generate_keywords list_set wordnet_synsets seed = Inr ks \<and> distinct ks \<and>
    set ks = str_replace ''_'' '' '' ` set (lemma_names syns)"
  using assms by (simp add: generate_keywords_def py_set_iteration_def for_synsets_eq)

lemma py_set_iteration_remdups: "py_set_iteration remdups"
  by (simp add: py_set_iteration_def)

lemma py_set_iteration_rev_remdups: "py_set_iteration (\<lambda>xs. rev (remdups xs))"
  by (simp add: py_set_iteration_def)

section \<open>Keyword expansion\<close>

text \<open>
  C7. A seed for which the lookup gives no synset: \<open>generate_keywords\<close> returns the
  empty list, and returns it as a value, not as an exception.
\<close>

theorem generate_keywords_no_synsets:
  assumes "py_set_iteration list_set" and "wordnet_synsets seed = Inr []"
  shows "generate_keywords list_set wordnet_synsets seed = Inr []"
proof -
  from assms(1) have "set (list_set []) = {}"
    by (simp add: py_set_iteration_def)
  then show ?thesis
    using assms(2) by (simp add: generate_keywords_def)
qed

theorem generate_keywords_no_synsets_witness:
  "py_set_iteration remdups \<and> bank_wordnet ''xyzzy'' = Inr [] \<and>
   generate_keywords remdups bank_wordnet ''xyzzy'' = Inr []"
  using generate_keywords_no_synsets [of remdups bank_wordnet "''xyzzy''"]
  by (simp add: py_set_iteration_remdups bank_wordnet_def)

text \<open>
  C3. On the seed \<open>bank\<close> and the database of the scenario, whatever the iteration order
  of the set, \<open>generate_keywords\<close> returns the three variants \<open>bank\<close>, \<open>depository\<close> and
  \<open>riverbank\<close>: three elements, \<open>bank\<close> once.
\<close>

theorem generate_keywords_bank:
  assumes "py_set_iteration list_set"
  shows "\<exists>ks. generate_keywords list_set bank_wordnet ''bank'' = Inr ks \<and>
    set ks = {''bank'', ''depository'', ''riverbank''} \<and> length ks = 3 \<and>
    count_list ks ''bank'' = 1"
proof -
  let ?syns = "[Synset ''bank_(finance)'' [Lemma ''bank'', Lemma ''depository''],
                Synset ''bank_(river)'' [Lemma ''bank'', Lemma ''riverbank'']]"
  have db: "bank_wordnet ''bank'' = Inr ?syns"
    by (simp add: bank_wordnet_def)
  from generate_keywords_set [of list_set bank_wordnet "''bank''" ?syns] assms db
  obtain ks where
    ks: "generate_keywords list_set bank_wordnet ''bank'' = Inr ks" and d: "distinct ks"
    and s: "set ks = str_replace ''_'' '' '' ` set (lemma_names ?syns)"
    by blast
  have s': "set ks = {''bank'', ''depository'', ''riverbank''}"
    unfolding s by (auto simp: lemma_names_def str_replace_char)
  have "card (set ks) = 3"
    unfolding s' by simp
  with d have l: "length ks = 3"
    by (simp add: distinct_card)
  have "''bank'' \<in> set ks"
    unfolding s' by simp
  with d have "count_list ks ''bank'' = 1"
    by (induction ks) auto
  with ks s' l show ?thesis by blast
qed

theorem generate_keywords_bank_witness:
  "py_set_iteration remdups \<and>
   generate_keywords remdups bank_wordnet ''bank'' = Inr [''depository'', ''bank'', ''riverbank'']"
  using generate_keywords_bank [of remdups]
  by (simp add: py_set_iteration_remdups generate_keywords_def bank_wordnet_def str_replace_char)

text \<open>
  C6. Whatever the seed and the database, no variant \<open>generate_keywords\<close> returns
  contains an underscore: the variants are the lemma names of the seed's synsets with
  every underscore replaced by a space. (When the lookup raises, nothing is returned.)
\<close>

theorem generate_keywords_no_separator:
  assumes "py_set_iteration list_set"
  shows "case generate_keywords list_set wordnet_synsets seed of
           Inl e \<Rightarrow> wordnet_synsets seed = Inl e
         | Inr ks \<Rightarrow>
             (\<forall>k \<in> set ks. CHR ''_'' \<notin> set k) \<and>
             (\<exists>syns. wordnet_synsets seed = Inr syns \<and>
                set ks = map (\<lambda>c. if c = CHR ''_'' then CHR '' '' else c) ` set (lemma_names syns))"
proof (cases "wordnet_synsets seed")
  case (Inl e)
  then show ?thesis by (simp add: generate_keywords_def)
next
  case (Inr syns)
  from generate_keywords_set [of list_set wordnet_synsets seed syns] assms Inr
  obtain ks where ks: "generate_keywords list_set wordnet_synsets seed = Inr ks"
    and s: "set ks = str_replace ''_'' '' '' ` set (lemma_names syns)"
    by blast
  have "\<forall>k \<in> set ks. CHR ''_'' \<notin> set k"
    unfolding s by (auto simp: str_replace_char)
  moreover have "set ks = map (\<lambda>c. if c = CHR ''_'' then CHR '' '' else c) ` set (lemma_names syns)"
    unfolding s by (rule image_cong) (simp_all add: str_replace_char)
  ultimately show ?thesis
    using ks Inr by simp
qed

theorem generate_keywords_no_separator_witness:
  "py_set_iteration remdups \<and>
   generate_keywords remdups
     (\<lambda>word. Inr [Synset ''ice_cream.n.01'' [Lemma ''ice_cream'', Lemma ''icecream''],
                  Synset ''frozen_dessert.n.01'' [Lemma ''frozen_dessert'', Lemma ''ice_cream'']])
     ''ice cream'' = Inr [''icecream'', ''frozen dessert'', ''ice cream'']"
  using generate_keywords_no_separator [of remdups
     "\<lambda>word. Inr [Synset ''ice_cream.n.01'' [Lemma ''ice_cream'', Lemma ''icecream''],
                  Synset ''frozen_dessert.n.01'' [Lemma ''frozen_dessert'', Lemma ''ice_cream'']]"
     "''ice cream''"]
  by (simp add: py_set_iteration_remdups generate_keywords_def str_replace_char lemma_names_def)

text \<open>
  C9. Two calls with the same seed on the same database return the same set of variants:
  two independent runs of the function do, whatever order each iterates its set in (the
  lists may differ in order, the sets do not), and so do two calls through the cache in
  one process, where the second returns what the first did.
\<close>

theorem generate_keywords_deterministic:
  assumes "py_set_iteration list_set1" and "py_set_iteration list_set2"
    and "wordnet1 seed = wordnet2 seed"
  shows "map_sum id set (generate_keywords list_set1 wordnet1 seed) =
         map_sum id set (generate_keywords list_set2 wordnet2 seed) \<and>
         fst (cached_generate_keywords list_set1 wordnet1 t2 seed
               (snd (cached_generate_keywords list_set1 wordnet1 t1 seed cache))) =
         fst (cached_generate_keywords list_set1 wordnet1 t1 seed cache)"
proof
  show "map_sum id set (generate_keywords list_set1 wordnet1 seed) =
        map_sum id set (generate_keywords list_set2 wordnet2 seed)"
    using assms by (simp add: generate_keywords_def py_set_iteration_def split: sum.splits)
  show "fst (cached_generate_keywords list_set1 wordnet1 t2 seed
               (snd (cached_generate_keywords list_set1 wordnet1 t1 seed cache))) =
         fst (cached_generate_keywords list_set1 wordnet1 t1 seed cache)"
    by (auto simp: cached_generate_keywords_def cache_data_def cache_read_def
          split: option.splits sum.splits prod.splits)
qed

theorem generate_keywords_deterministic_witness:
  "py_set_iteration remdups \<and> py_set_iteration (\<lambda>xs. rev (remdups xs)) \<and>
   generate_keywords remdups bank_wordnet ''bank'' = Inr [''depository'', ''bank'', ''riverbank''] \<and>
   generate_keywords (\<lambda>xs. rev (remdups xs)) bank_wordnet ''bank'' =
     Inr [''riverbank'', ''bank'', ''depository''] \<and>
   map_sum id set (generate_keywords remdups bank_wordnet ''bank'') =
   map_sum id set (generate_keywords (\<lambda>xs. rev (remdups xs)) bank_wordnet ''bank'') \<and>
   fst (cached_generate_keywords remdups bank_wordnet 7 ''bank''
         (snd (cached_generate_keywords remdups bank_wordnet 0 ''bank'' Map.empty))) =
   Inr [''depository'', ''bank'', ''riverbank'']"
  using generate_keywords_deterministic [of remdups "\<lambda>xs. rev (remdups xs)" bank_wordnet "''bank''"
     bank_wordnet 7 0 Map.empty]
  by (simp add: py_set_iteration_remdups py_set_iteration_rev_remdups generate_keywords_def
        bank_wordnet_def str_replace_char cached_generate_keywords_def cache_data_def
        cache_read_def)

text \<open>
  C10. \<open>generate_keywords\<close> checks nothing about the seed: for every seed, the empty
  string too, when the lookup returns a list of synsets the function returns a list
  without duplicates, the normalised lemma names of these synsets, and raises nothing;
  the result is the one any other seed with the same synsets gives.
\<close>

theorem generate_keywords_total:
  assumes "py_set_iteration list_set" and "wordnet_synsets seed = Inr syns"
  shows "\<exists>ks. generate_keywords list_set wordnet_synsets seed = Inr ks \<and> distinct ks \<and>
    set ks = str_replace ''_'' '' '' ` set (lemma_names syns) \<and>
    generate_keywords list_set wordnet_synsets seed =
      generate_keywords list_set (\<lambda>word. Inr syns) []"
  using assms by (simp add: generate_keywords_def py_set_iteration_def for_synsets_eq)

theorem generate_keywords_total_witness:
  "py_set_iteration remdups \<and>
   generate_keywords remdups (\<lambda>word. Inr [Synset ''a.n.01'' [Lemma ''a_b'', Lemma ''c'', Lemma ''a_b'']]) []
     = Inr [''c'', ''a b''] \<and>
   generate_keywords remdups bank_wordnet [] = Inr []"
  using generate_keywords_total [of remdups
     "\<lambda>word. Inr [Synset ''a.n.01'' [Lemma ''a_b'', Lemma ''c'', Lemma ''a_b'']]" "[]"
     "[Synset ''a.n.01'' [Lemma ''a_b'', Lemma ''c'', Lemma ''a_b'']]"]
  by (simp add: py_set_iteration_remdups generate_keywords_def str_replace_char bank_wordnet_def
        lemma_names_def)

section \<open>Metrics fetching\<close>

lemma raise_for_status_error:
  assumes "400 \<le> status_code r" and "status_code r < 600"
  shows "raise_for_status r =
     Inl (PyException ''HTTPError''
       (str_int (status_code r) @
        (if status_code r < 500 then '' Client Error: '' else '' Server Error: '') @
        reason r @ '' for url: '' @ url r))"
  using assms by (simp add: raise_for_status_def)

lemma raise_for_status_ok:
  assumes "\<not> (400 \<le> status_code r \<and> status_code r < 600)"
  shows "raise_for_status r = Inr ()"
  using assms by (auto simp: raise_for_status_def)

lemma get_seo_metrics_one_request:
  "snd (get_seo_metrics (net_get net) keyword api_key sent) =
     sent @ [(SERPAPI_URL, [(''q'', PStr keyword), (''api_key'', PStr api_key), (''num'', PInt 5)], 10)]"
  by (simp add: get_seo_metrics_def try_block_def net_get_def Let_def split: sum.splits)

text \<open>
  C1. \<open>get_seo_metrics\<close> returns a dict on every input and every behaviour of the
  network. An exception of the request (connection error, timeout), of the status check
  or of the JSON parse ends in the failure record: the keyword as given, \<open>success\<close>
  false, and \<open>error\<close> the text \<open>str(e)\<close> of the exception. For a status in 400..599, HTTP
  401 among them, that text is the message of the HTTPError and is not empty. (The text
  of another exception may be empty, as the evaluation after the theorem shows.)
\<close>

theorem get_seo_metrics_failure_record:
  "case requests_get SERPAPI_URL
          [(''q'', PStr keyword), (''api_key'', PStr api_key), (''num'', PInt 5)] 10 w of
     (Inl e, w') \<Rightarrow>
       get_seo_metrics requests_get keyword api_key w =
         ([(''keyword'', PStr keyword), (''error'', PStr (str_exc e)), (''success'', PBool False)], w')
   | (Inr r, w') \<Rightarrow>
       (if 400 \<le> status_code r \<and> status_code r < 600
        then \<exists>msg. msg \<noteq> [] \<and>
          msg = str_int (status_code r) @
            (if status_code r < 500 then '' Client Error: '' else '' Server Error: '') @
            reason r @ '' for url: '' @ url r \<and>
          get_seo_metrics requests_get keyword api_key w =
            ([(''keyword'', PStr keyword), (''error'', PStr msg), (''success'', PBool False)], w')
        else case json r of
          Inl e \<Rightarrow>
            get_seo_metrics requests_get keyword api_key w =
              ([(''keyword'', PStr keyword), (''error'', PStr (str_exc e)),
                (''success'', PBool False)], w')
        | Inr data \<Rightarrow>
            \<exists>m. get_seo_metrics requests_get keyword api_key w = (m, w') \<and>
              item m ''keyword'' = Some (PStr keyword))"
  by (auto simp: get_seo_metrics_def try_block_def raise_for_status_error raise_for_status_ok
        item_def split: prod.splits sum.splits)

theorem get_seo_metrics_failure_record_witness:
  "get_seo_metrics unauthorized ''xyzzy123nonexistent'' ''badkey'' () =
     ([(''keyword'', PStr ''xyzzy123nonexistent''),
       (''error'', PStr ''401 Client Error: Unauthorized for url: https://serpapi.com/search.json?q=xyzzy123nonexistent&api_key=badkey&num=5''),
       (''success'', PBool False)], ())"
  using get_seo_metrics_failure_record [of unauthorized "''xyzzy123nonexistent''" "''badkey''" "()"]
  by (simp add: unauthorized_def str_int_def str_nat.simps [of 401] str_nat.simps [of 40]
        str_nat.simps [of 4] digit_char_def)

text \<open>
  The failure record of an exception whose text is empty, here a MemoryError while the
  body is parsed: \<open>error\<close> is the empty string.
\<close>

theorem get_seo_metrics_empty_error:
  "get_seo_metrics
     (\<lambda>u params timeout w.
        (Inr \<lparr>status_code = 200, reason = ''OK'', url = u,
              json = Inl (PyException ''MemoryError'' [])\<rparr>, w))
     ''seo'' ''key'' () =
     ([(''keyword'', PStr ''seo''), (''error'', PStr []), (''success'', PBool False)], ())"
  by (simp add: get_seo_metrics_def try_block_def raise_for_status_def)

text \<open>
  C2. Every dict \<open>get_seo_metrics\<close> returns has the keyword and one of two shapes:
  \<open>success\<close> true with exactly the keys keyword, search\_volume, keyword\_difficulty,
  success (no error), or \<open>success\<close> false with exactly the keys keyword, error, success
  (no metrics).
\<close>

theorem get_seo_metrics_discriminated:
  "case get_seo_metrics requests_get keyword api_key w of
     (m, w') \<Rightarrow>
       item m ''keyword'' = Some (PStr keyword) \<and>
       (item m ''success'' = Some (PBool True) \<and>
        keys m = {''keyword'', ''search_volume'', ''keyword_difficulty'', ''success''} \<or>
        item m ''success'' = Some (PBool False) \<and>
        keys m = {''keyword'', ''error'', ''success''})"
  by (auto simp: get_seo_metrics_def try_block_def item_def keys_def
        split: prod.splits sum.splits)

text \<open>
  C4, as the code has it. On a 2xx response whose body parses to a JSON object in which
  \<open>search_metadata\<close> is absent or is itself an object, the result has \<open>success\<close> true,
  \<open>search_volume\<close> is \<open>search_metadata.total_results\<close> and \<open>keyword_difficulty\<close> the
  top-level field of that name, each replaced by \<open>N/A\<close> when absent.
\<close>

theorem get_seo_metrics_extracts:
  assumes "requests_get SERPAPI_URL
             [(''q'', PStr keyword), (''api_key'', PStr api_key), (''num'', PInt 5)] 10 w = (Inr r, w')"
    and "200 \<le> status_code r" and "status_code r < 300"
    and "json r = Inr (PDict data)"
    and "map_of data ''search_metadata'' = None \<or>
         (\<exists>md. map_of data ''search_metadata'' = Some (PDict md))"
  shows "get_seo_metrics requests_get keyword api_key w =
     ([(''keyword'', PStr keyword),
       (''search_volume'',
          case map_of data ''search_metadata'' of
            Some (PDict md) \<Rightarrow>
              (case map_of md ''total_results'' of None \<Rightarrow> PStr ''N/A'' | Some v \<Rightarrow> v)
          | _ \<Rightarrow> PStr ''N/A''),
       (''keyword_difficulty'',
          case map_of data ''keyword_difficulty'' of None \<Rightarrow> PStr ''N/A'' | Some v \<Rightarrow> v),
       (''success'', PBool True)], w')"
proof -
  from assms(2,3) have ok: "raise_for_status r = Inr ()"
    by (simp add: raise_for_status_ok)
  from assms(5) show ?thesis
  proof
    assume "map_of data ''search_metadata'' = None"
    with assms(1,4) ok show ?thesis
      by (simp add: get_seo_metrics_def try_block_def dict_get_def)
  next
    assume "\<exists>md. map_of data ''search_metadata'' = Some (PDict md)"
    then obtain md where "map_of data ''search_metadata'' = Some (PDict md)" ..
    with assms(1,4) ok show ?thesis
      by (simp add: get_seo_metrics_def try_block_def dict_get_def)
  qed
qed

theorem get_seo_metrics_extracts_witness:
  "get_seo_metrics
     (\<lambda>u params timeout w.
        (Inr \<lparr>status_code = 200, reason = ''OK'', url = u,
              json = Inr (PDict [(''search_metadata'',
                PDict [(''id'', PStr ''abc''), (''total_results'', PInt 1200)])])\<rparr>, w))
     ''seo'' ''key'' () =
     ([(''keyword'', PStr ''seo''), (''search_volume'', PInt 1200),
       (''keyword_difficulty'', PStr ''N/A''), (''success'', PBool True)], ()) \<and>
   get_seo_metrics
     (\<lambda>u params timeout w.
        (Inr \<lparr>status_code = 200, reason = ''OK'', url = u,
              json = Inr (PDict [(''keyword_difficulty'', PInt 42)])\<rparr>, w))
     ''seo'' ''key'' () =
     ([(''keyword'', PStr ''seo''), (''search_volume'', PStr ''N/A''),
       (''keyword_difficulty'', PInt 42), (''success'', PBool True)], ())"
  using
    get_seo_metrics_extracts [of
      "\<lambda>u params timeout w.
        (Inr \<lparr>status_code = 200, reason = ''OK'', url = u,
              json = Inr (PDict [(''search_metadata'',
                PDict [(''id'', PStr ''abc''), (''total_results'', PInt 1200)])])\<rparr>, w)"
      "''seo''" "''key''" "()"
      "\<lparr>status_code = 200, reason = ''OK'', url = SERPAPI_URL,
        json = Inr (PDict [(''search_metadata'',
          PDict [(''id'', PStr ''abc''), (''total_results'', PInt 1200)])])\<rparr>"
      "()"
      "[(''search_metadata'', PDict [(''id'', PStr ''abc''), (''total_results'', PInt 1200)])]"]
    get_seo_metrics_extracts [of
      "\<lambda>u params timeout w.
        (Inr \<lparr>status_code = 200, reason = ''OK'', url = u,
              json = Inr (PDict [(''keyword_difficulty'', PInt 42)])\<rparr>, w)"
      "''seo''" "''key''" "()"
      "\<lparr>status_code = 200, reason = ''OK'', url = SERPAPI_URL,
        json = Inr (PDict [(''keyword_difficulty'', PInt 42)])\<rparr>"
      "()"
      "[(''keyword_difficulty'', PInt 42)]"]
  by simp

text \<open>
  A 2xx response whose body parses, with no \<open>total_results\<close> in it: \<open>search_metadata\<close>
  is \<open>null\<close>, the second \<open>get\<close> raises AttributeError, and the result is a failure
  record, not \<open>N/A\<close> with \<open>success\<close> true.
\<close>

theorem get_seo_metrics_null_metadata:
  "get_seo_metrics
     (\<lambda>u params timeout w.
        (Inr \<lparr>status_code = 200, reason = ''OK'', url = u,
              json = Inr (PDict [(''search_metadata'', PNone)])\<rparr>, w))
     ''seo'' ''key'' () =
     ([(''keyword'', PStr ''seo''),
       (''error'', PStr (CHR 0x27 # ''NoneType'' @ CHR 0x27 # '' object has no attribute '' @
                         CHR 0x27 # ''get'' @ [CHR 0x27])),
       (''success'', PBool False)], ())"
  by (simp add: get_seo_metrics_def try_block_def raise_for_status_def dict_get_def)

section \<open>The cache\<close>

lemma cached_hit:
  assumes "cache (keyword, api_key) = Some (m, stored)" and "now < stored + 3600"
  shows "cached_get_seo_metrics requests_get now keyword api_key (cache, w) = (Inr m, cache, w)"
  using assms by (simp add: cached_get_seo_metrics_def cache_data_def cache_read_def)

lemma cached_miss:
  assumes "cache_read (Some 3600) now cache (keyword, api_key) = None"
  shows "cached_get_seo_metrics requests_get now keyword api_key (cache, w) =
    (Inr (fst (get_seo_metrics requests_get keyword api_key w)),
     cache((keyword, api_key) \<mapsto> (fst (get_seo_metrics requests_get keyword api_key w), now)),
     snd (get_seo_metrics requests_get keyword api_key w))"
  using assms by (simp add: cached_get_seo_metrics_def cache_data_def split: prod.splits)

lemma cached_other_key:
  assumes "(keyword', api_key') \<noteq> (keyword, api_key)"
  shows "fst (snd (cached_get_seo_metrics requests_get now keyword' api_key' (cache, w)))
           (keyword, api_key) = cache (keyword, api_key)"
  using assms
  by (auto simp: cached_get_seo_metrics_def cache_data_def split: option.splits prod.splits)

lemma cached_keeps_entry:
  assumes "fst st (keyword, api_key) = Some (m, stored)"
    and "(keyword', api_key') \<noteq> (keyword, api_key) \<or> now < stored + 3600"
  shows "fst (snd (cached_get_seo_metrics requests_get now keyword' api_key' st))
           (keyword, api_key) = Some (m, stored)"
proof (cases st)
  case (Pair cache w)
  show ?thesis
  proof (cases "(keyword', api_key') = (keyword, api_key)")
    case True
    with assms Pair show ?thesis
      by (simp add: cached_hit)
  next
    case False
    with assms(1) Pair show ?thesis
      by (simp add: cached_other_key)
  qed
qed

lemma run_calls_keeps_entry:
  assumes "fst st (keyword, api_key) = Some (m, stored)"
    and "\<forall>(now, keyword', api_key') \<in> set calls.
           (keyword', api_key') \<noteq> (keyword, api_key) \<or> now < stored + 3600"
  shows "fst (run_calls requests_get calls st) (keyword, api_key) = Some (m, stored)"
  using assms
proof (induction calls arbitrary: st)
  case Nil
  then show ?case by simp
next
  case (Cons c calls)
  obtain now keyword' api_key' where c: "c = (now, keyword', api_key')"
    by (cases c) auto
  from Cons.prems c have "(keyword', api_key') \<noteq> (keyword, api_key) \<or> now < stored + 3600"
    by auto
  with Cons.prems(1)
  have "fst (snd (cached_get_seo_metrics requests_get now keyword' api_key' st))
          (keyword, api_key) = Some (m, stored)"
    by (rule cached_keeps_entry)
  moreover from Cons.prems(2)
  have "\<forall>(now, keyword', api_key') \<in> set calls.
          (keyword', api_key') \<noteq> (keyword, api_key) \<or> now < stored + 3600"
    by simp
  ultimately show ?case
    using Cons.IH c by simp
qed

text \<open>
  C5. A call of the cached \<open>get_seo_metrics\<close> returns a dict and leaves it in the cache
  under (keyword, api\_key), stored at the clock reading of the call when the call was a
  miss. While that entry has not expired (less than 3600 seconds after it was stored),
  a later call with the same pair returns the same dict, a failure record as well as
  any other, and sends no request: it leaves the cache and the list of requests sent as
  they were, also after any calls in between with other pairs, or with this pair within
  the window. Once the 3600 seconds have passed, the next call sends one new request and
  stores what it returns.
\<close>

theorem cached_get_seo_metrics_coherent:
  assumes "cached_get_seo_metrics (net_get net) t1 keyword api_key (cache, sent) =
             (r1, cache1, sent1)"
  shows "\<exists>m stored. r1 = Inr m \<and> cache1 (keyword, api_key) = Some (m, stored) \<and>
     t1 < stored + 3600 \<and>
     (cache (keyword, api_key) = None \<longrightarrow>
        stored = t1 \<and>
        sent1 = sent @ [(SERPAPI_URL,
                         [(''q'', PStr keyword), (''api_key'', PStr api_key), (''num'', PInt 5)],
                         10)]) \<and>
     (\<forall>calls t2.
        (\<forall>(now, keyword', api_key') \<in> set calls.
           (keyword', api_key') \<noteq> (keyword, api_key) \<or> now < stored + 3600) \<and>
        t2 < stored + 3600 \<longrightarrow>
        cached_get_seo_metrics (net_get net) t2 keyword api_key
          (run_calls (net_get net) calls (cache1, sent1)) =
        (r1, run_calls (net_get net) calls (cache1, sent1))) \<and>
     (\<forall>t2. stored + 3600 \<le> t2 \<longrightarrow>
        (\<exists>m2. cached_get_seo_metrics (net_get net) t2 keyword api_key (cache1, sent1) =
          (Inr m2, cache1((keyword, api_key) \<mapsto> (m2, t2)),
           sent1 @ [(SERPAPI_URL,
                     [(''q'', PStr keyword), (''api_key'', PStr api_key), (''num'', PInt 5)],
                     10)])))"
proof -
  let ?key = "(keyword, api_key)"
  let ?req = "(SERPAPI_URL,
    [(''q'', PStr keyword), (''api_key'', PStr api_key), (''num'', PInt 5)], 10::int)"
  let ?G = "get_seo_metrics (net_get net) keyword api_key sent"
  have first: "\<exists>m stored. r1 = Inr m \<and> cache1 ?key = Some (m, stored) \<and>
      t1 < stored + 3600 \<and> (cache ?key = None \<longrightarrow> stored = t1 \<and> sent1 = sent @ [?req])"
  proof (cases "cache_read (Some 3600) t1 cache ?key")
    case None
    from cached_miss [OF None, of "net_get net" sent] assms
    have a: "r1 = Inr (fst ?G)" and b: "cache1 = cache(?key \<mapsto> (fst ?G, t1))"
      and c: "sent1 = snd ?G"
      by simp_all
    from c have c': "sent1 = sent @ [?req]"
      by (simp add: get_seo_metrics_one_request)
    from b have b': "cache1 ?key = Some (fst ?G, t1)"
      by simp
    have "r1 = Inr (fst ?G) \<and> cache1 ?key = Some (fst ?G, t1) \<and> t1 < t1 + 3600 \<and>
      (cache ?key = None \<longrightarrow> t1 = t1 \<and> sent1 = sent @ [?req])"
      using a b' c' by simp
    then show ?thesis
      by (intro exI [of _ "fst ?G"] exI [of _ t1])
  next
    case (Some m)
    then obtain stored where e: "cache ?key = Some (m, stored)" and t: "t1 < stored + 3600"
      by (auto simp: cache_read_def split: option.splits if_splits)
    from cached_hit [of cache keyword api_key m stored t1 "net_get net" sent] e t assms
    have a: "r1 = Inr m" and b: "cache1 = cache"
      by simp_all
    have "r1 = Inr m \<and> cache1 ?key = Some (m, stored) \<and> t1 < stored + 3600 \<and>
      (cache ?key = None \<longrightarrow> stored = t1 \<and> sent1 = sent @ [?req])"
      using a b e t by simp
    then show ?thesis
      by (intro exI [of _ m] exI [of _ stored])
  qed
  then obtain m stored where r1: "r1 = Inr m"
    and entry: "cache1 ?key = Some (m, stored)" and t1: "t1 < stored + 3600"
    and fresh: "cache ?key = None \<longrightarrow> stored = t1 \<and> sent1 = sent @ [?req]"
    by (elim exE conjE)
  have hit: "\<forall>calls t2.
        (\<forall>(now, keyword', api_key') \<in> set calls.
           (keyword', api_key') \<noteq> ?key \<or> now < stored + 3600) \<and>
        t2 < stored + 3600 \<longrightarrow>
        cached_get_seo_metrics (net_get net) t2 keyword api_key
          (run_calls (net_get net) calls (cache1, sent1)) =
        (r1, run_calls (net_get net) calls (cache1, sent1))"
  proof (intro allI impI, elim conjE)
    fix calls :: "(real \<times> string \<times> string) list" and t2 :: real
    assume calls: "\<forall>(now, keyword', api_key') \<in> set calls.
           (keyword', api_key') \<noteq> ?key \<or> now < stored + 3600"
      and t2: "t2 < stored + 3600"
    obtain cache2 sent2 where st: "run_calls (net_get net) calls (cache1, sent1) = (cache2, sent2)"
      by (cases "run_calls (net_get net) calls (cache1, sent1)") auto
    from entry have "fst (cache1, sent1) ?key = Some (m, stored)"
      by simp
    from run_calls_keeps_entry [OF this calls, of "net_get net"] st
    have "cache2 ?key = Some (m, stored)"
      by simp
    with cached_hit [of cache2 keyword api_key m stored t2 "net_get net" sent2] t2 st r1
    show "cached_get_seo_metrics (net_get net) t2 keyword api_key
          (run_calls (net_get net) calls (cache1, sent1)) =
        (r1, run_calls (net_get net) calls (cache1, sent1))"
      by simp
  qed
  have miss: "\<forall>t2. stored + 3600 \<le> t2 \<longrightarrow>
        (\<exists>m2. cached_get_seo_metrics (net_get net) t2 keyword api_key (cache1, sent1) =
          (Inr m2, cache1(?key \<mapsto> (m2, t2)), sent1 @ [?req]))"
  proof (intro allI impI)
    fix t2 :: real
    assume t2: "stored + 3600 \<le> t2"
    from entry t2 have "cache_read (Some 3600) t2 cache1 ?key = None"
      by (simp add: cache_read_def)
    from cached_miss [OF this, of "net_get net" sent1]
    have "cached_get_seo_metrics (net_get net) t2 keyword api_key (cache1, sent1) =
       (Inr (fst (get_seo_metrics (net_get net) keyword api_key sent1)),
        cache1(?key \<mapsto> (fst (get_seo_metrics (net_get net) keyword api_key sent1), t2)),
        sent1 @ [?req])"
      by (simp add: get_seo_metrics_one_request)
    then show "\<exists>m2. cached_get_seo_metrics (net_get net) t2 keyword api_key (cache1, sent1) =
          (Inr m2, cache1(?key \<mapsto> (m2, t2)), sent1 @ [?req])"
      by (rule exI [of _ "fst (get_seo_metrics (net_get net) keyword api_key sent1)"])
  qed
  note all = conjI [OF r1 conjI [OF entry conjI [OF t1 conjI [OF fresh conjI [OF hit miss]]]]]
  show ?thesis
    by (rule exI [of _ m], rule exI [of _ stored]) (rule all)
qed

theorem cached_get_seo_metrics_coherent_witness:
  "cached_get_seo_metrics (net_get recovering) 0 ''seo'' ''key'' (Map.empty, []) =
     (Inr [(''keyword'', PStr ''seo''),
        (''error'', PStr ''503 Server Error: Service Unavailable for url: https://serpapi.com/search.json''),
        (''success'', PBool False)],
      [(''seo'', ''key'') \<mapsto> ([(''keyword'', PStr ''seo''),
        (''error'', PStr ''503 Server Error: Service Unavailable for url: https://serpapi.com/search.json''),
        (''success'', PBool False)], 0)],
      [(''https://serpapi.com/search.json'',
        [(''q'', PStr ''seo''), (''api_key'', PStr ''key''), (''num'', PInt 5)], 10)]) \<and>
   cached_get_seo_metrics (net_get recovering) 1800 ''seo'' ''key''
     (run_calls (net_get recovering) [(60, ''seo tools'', ''key'')]
       ([(''seo'', ''key'') \<mapsto> ([(''keyword'', PStr ''seo''),
        (''error'', PStr ''503 Server Error: Service Unavailable for url: https://serpapi.com/search.json''),
        (''success'', PBool False)], 0)],
        [(''https://serpapi.com/search.json'',
        [(''q'', PStr ''seo''), (''api_key'', PStr ''key''), (''num'', PInt 5)], 10)])) =
     (Inr [(''keyword'', PStr ''seo''),
        (''error'', PStr ''503 Server Error: Service Unavailable for url: https://serpapi.com/search.json''),
        (''success'', PBool False)],
      run_calls (net_get recovering) [(60, ''seo tools'', ''key'')]
       ([(''seo'', ''key'') \<mapsto> ([(''keyword'', PStr ''seo''),
        (''error'', PStr ''503 Server Error: Service Unavailable for url: https://serpapi.com/search.json''),
        (''success'', PBool False)], 0)],
        [(''https://serpapi.com/search.json'',
        [(''q'', PStr ''seo''), (''api_key'', PStr ''key''), (''num'', PInt 5)], 10)])) \<and>
   length (snd (run_calls (net_get recovering) [(60, ''seo tools'', ''key'')]
       ([(''seo'', ''key'') \<mapsto> ([(''keyword'', PStr ''seo''),
        (''error'', PStr ''503 Server Error: Service Unavailable for url: https://serpapi.com/search.json''),
        (''success'', PBool False)], 0)],
        [(''https://serpapi.com/search.json'',
        [(''q'', PStr ''seo''), (''api_key'', PStr ''key''), (''num'', PInt 5)], 10)]))) = 2 \<and>
   fst (cached_get_seo_metrics (net_get recovering) 3600 ''seo'' ''key''
       ([(''seo'', ''key'') \<mapsto> ([(''keyword'', PStr ''seo''),
        (''error'', PStr ''503 Server Error: Service Unavailable for url: https://serpapi.com/search.json''),
        (''success'', PBool False)], 0)],
        [(''https://serpapi.com/search.json'',
        [(''q'', PStr ''seo''), (''api_key'', PStr ''key''), (''num'', PInt 5)], 10)])) =
     Inr [(''keyword'', PStr ''seo''), (''search_volume'', PInt 1200),
        (''keyword_difficulty'', PStr ''N/A''), (''success'', PBool True)]"
proof -
  let ?F = "[(''keyword'', PStr ''seo''),
        (''error'', PStr ''503 Server Error: Service Unavailable for url: https://serpapi.com/search.json''),
        (''success'', PBool False)]"
  let ?R = "(''https://serpapi.com/search.json'',
        [(''q'', PStr ''seo''), (''api_key'', PStr ''key''), (''num'', PInt 5)], 10)"
  let ?C = "[(''seo'', ''key'') \<mapsto> ([(''keyword'', PStr ''seo''),
        (''error'', PStr ''503 Server Error: Service Unavailable for url: https://serpapi.com/search.json''),
        (''success'', PBool False)], 0)]"
  have first: "cached_get_seo_metrics (net_get recovering) 0 ''seo'' ''key'' (Map.empty, []) =
      (Inr ?F, ?C, [?R])"
    by (simp add: cached_get_seo_metrics_def cache_data_def cache_read_def get_seo_metrics_def
          try_block_def net_get_def recovering_def raise_for_status_def SERPAPI_URL_def
          str_int_def str_nat.simps [of 503] str_nat.simps [of 50] str_nat.simps [of 5]
          digit_char_def)
  from cached_get_seo_metrics_coherent [OF first]
  obtain m stored where entry: "?C (''seo'', ''key'') = Some (m, stored)"
    and hit: "\<forall>calls t2.
        (\<forall>(now, keyword', api_key') \<in> set calls.
           (keyword', api_key') \<noteq> (''seo'', ''key'') \<or> now < stored + 3600) \<and>
        t2 < stored + 3600 \<longrightarrow>
        cached_get_seo_metrics (net_get recovering) t2 ''seo'' ''key''
          (run_calls (net_get recovering) calls (?C, [?R])) =
        (Inr ?F, run_calls (net_get recovering) calls (?C, [?R]))"
  proof (elim exE conjE)
    fix m stored
    assume "?C (''seo'', ''key'') = Some (m, stored)"
      and "\<forall>calls t2.
        (\<forall>(now, keyword', api_key') \<in> set calls.
           (keyword', api_key') \<noteq> (''seo'', ''key'') \<or> now < stored + 3600) \<and>
        t2 < stored + 3600 \<longrightarrow>
        cached_get_seo_metrics (net_get recovering) t2 ''seo'' ''key''
          (run_calls (net_get recovering) calls (?C, [?R])) =
        (Inr ?F, run_calls (net_get recovering) calls (?C, [?R]))"
    then show thesis
      by (rule that)
  qed
  from entry have stored: "stored = 0"
    by simp
  from hit [rule_format, of "[(60, ''seo tools'', ''key'')]" 1800] stored
  have second: "cached_get_seo_metrics (net_get recovering) 1800 ''seo'' ''key''
      (run_calls (net_get recovering) [(60, ''seo tools'', ''key'')] (?C, [?R])) =
      (Inr ?F, run_calls (net_get recovering) [(60, ''seo tools'', ''key'')] (?C, [?R]))"
    by simp
  have third: "length (snd (run_calls (net_get recovering) [(60, ''seo tools'', ''key'')]
      (?C, [?R]))) = 2"
    by (simp add: cached_get_seo_metrics_def cache_data_def cache_read_def split_beta
          get_seo_metrics_one_request)
  have fourth: "fst (cached_get_seo_metrics (net_get recovering) 3600 ''seo'' ''key'' (?C, [?R])) =
      Inr [(''keyword'', PStr ''seo''), (''search_volume'', PInt 1200),
        (''keyword_difficulty'', PStr ''N/A''), (''success'', PBool True)]"
    by (simp add: cached_get_seo_metrics_def cache_data_def cache_read_def get_seo_metrics_def
          try_block_def net_get_def recovering_def raise_for_status_def dict_get_def)
  from first second third fourth show ?thesis
    by blast
qed

section \<open>The analysis loop\<close>

lemma fetch_calls_append: "fetch_calls (xs @ ys) = fetch_calls xs @ fetch_calls ys"
  by (induction xs rule: fetch_calls.induct) simp_all

lemma analysis_loop_trace:
  "fetch_calls (events (analysis_loop fetch api_key analysis_limit (enumerate n ks) st)) =
     fetch_calls (events st) @ map (\<lambda>keyword. (keyword, api_key)) ks \<and>
   results (analysis_loop fetch api_key analysis_limit (enumerate n ks) st) =
     results st @ fetch_each fetch api_key ks (fetch_state st)"
proof (induction ks arbitrary: n st)
  case Nil
  show ?case by simp
next
  case (Cons keyword ks)
  show ?case
    by (cases "fetch keyword api_key (fetch_state st)")
       (simp add: Cons.IH fetch_calls_append)
qed

lemma length_fetch_each: "length (fetch_each fetch api_key ks s) = length ks"
  by (induction ks arbitrary: s) (auto split: prod.splits)

text \<open>
  C8. For a list of \<open>N\<close> keywords and an analysis limit \<open>k\<close> (the slider gives 1 to 20;
  any \<open>k\<close> from 0 on is covered), the loop calls \<open>get_seo_metrics\<close> exactly \<open>min N k\<close>
  times, on the first \<open>min N k\<close> keywords in their order, and \<open>results\<close> holds what these
  calls returned, in the order of the calls. With 12 keywords and a limit of 5 these are
  5 calls, on the first 5 keywords.
\<close>

theorem analysis_fetches_first_keywords:
  assumes "0 \<le> analysis_limit"
  shows "fetch_calls (events (analysis fetch api_key analysis_limit keywords s)) =
      map (\<lambda>keyword. (keyword, api_key))
        (take (min (length keywords) (nat analysis_limit)) keywords) \<and>
    length (fetch_calls (events (analysis fetch api_key analysis_limit keywords s))) =
      min (length keywords) (nat analysis_limit) \<and>
    results (analysis fetch api_key analysis_limit keywords s) =
      fetch_each fetch api_key (take (min (length keywords) (nat analysis_limit)) keywords) s \<and>
    length (results (analysis fetch api_key analysis_limit keywords s)) =
      min (length keywords) (nat analysis_limit)"
proof -
  have t: "take (min (length keywords) (nat analysis_limit)) keywords =
      take (nat analysis_limit) keywords"
    by (simp add: min_def)
  from assms have "slice_to keywords analysis_limit = take (nat analysis_limit) keywords"
    by (simp add: slice_to_def)
  then show ?thesis
    unfolding t by (simp add: analysis_def analysis_loop_trace length_fetch_each)
qed

theorem analysis_fetches_first_keywords_witness:
  "(0::int) \<le> 5 \<and>
   fetch_calls (events (analysis (get_seo_metrics unauthorized) ''key'' 5
     [''k01'', ''k02'', ''k03'', ''k04'', ''k05'', ''k06'', ''k07'', ''k08'', ''k09'', ''k10'',
      ''k11'', ''k12''] ())) =
     [(''k01'', ''key''), (''k02'', ''key''), (''k03'', ''key''), (''k04'', ''key''),
      (''k05'', ''key'')] \<and>
   map (\<lambda>m. item m ''keyword'') (results (analysis (get_seo_metrics unauthorized) ''key'' 5
     [''k01'', ''k02'', ''k03'', ''k04'', ''k05'', ''k06'', ''k07'', ''k08'', ''k09'', ''k10'',
      ''k11'', ''k12''] ())) =
     [Some (PStr ''k01''), Some (PStr ''k02''), Some (PStr ''k03''), Some (PStr ''k04''),
      Some (PStr ''k05'')]"
  using analysis_fetches_first_keywords [of 5 "get_seo_metrics unauthorized" "''key''"
     "[''k01'', ''k02'', ''k03'', ''k04'', ''k05'', ''k06'', ''k07'', ''k08'', ''k09'', ''k10'',
       ''k11'', ''k12'']" "()"]
  by (simp add: get_seo_metrics_def try_block_def unauthorized_def raise_for_status_def item_def)


end
